theory Spec2Isabelle
  imports Main "HOL-Library.Word" "HOL-Library.Multiset"
begin

section \<open>Data model of \<open>netpoll_options.go\<close>\<close>

text \<open>
  \<open>time.Duration\<close> is a signed 64-bit count of nanoseconds; \<open>time.Second\<close> is
  \<open>1000000000\<close>. No arithmetic is done on durations in this file: they are stored and
  handed on.
\<close>

type_synonym duration = "64 word"

definition Second :: duration where
  "Second = 1000000000"

text \<open>
  \<open>context.Context\<close> of the standard library: \<open>context.Background()\<close> is the empty
  root context, every other context is derived from a parent by attaching a value.
\<close>

datatype Context = Background | WithValue Context string string

text \<open>
  Modelled from the spec: the \<open>Connection\<close> collaborator, whose declaration is not in
  this file. A connection carries the request handler and the two timers that its
  setters install (section 6 of the specification). The type \<open>'h\<close> is the type of
  \<open>OnRequest\<close> values, which this file only passes around.
\<close>

record 'h connection =
  conn_onRequest :: 'h
  conn_readTimeout :: duration
  conn_idleTimeout :: duration

text \<open>
  A \<open>Connection\<close> value is a reference to the connection object: the objects live in a
  store indexed by their identity, and a method call updates the object it is made on.
\<close>

type_synonym Connection = nat

type_synonym 'h connections = "Connection \<Rightarrow> 'h connection"

text \<open>
  Modelled from the spec: the three setters of \<open>Connection\<close>, declared with it outside
  this file. Section 6 of the specification: \<open>SetOnRequest\<close> installs the per-read
  dispatch target, \<open>SetReadTimeout\<close> and \<open>SetIdleTimeout\<close> install the per-connection
  timers. \<open>prepare\<close> calls them as statements, so only their effect on the connection is
  modelled.
\<close>

definition SetOnRequest :: "Connection \<Rightarrow> 'h \<Rightarrow> 'h connections \<Rightarrow> 'h connections" where
  "SetOnRequest connection onRequest cs =
     cs(connection := (cs connection)\<lparr>conn_onRequest := onRequest\<rparr>)"

definition SetReadTimeout :: "Connection \<Rightarrow> duration \<Rightarrow> 'h connections \<Rightarrow> 'h connections" where
  "SetReadTimeout connection timeout cs =
     cs(connection := (cs connection)\<lparr>conn_readTimeout := timeout\<rparr>)"

definition SetIdleTimeout :: "Connection \<Rightarrow> duration \<Rightarrow> 'h connections \<Rightarrow> 'h connections" where
  "SetIdleTimeout connection timeout cs =
     cs(connection := (cs connection)\<lparr>conn_idleTimeout := timeout\<rparr>)"

text \<open>
  \<open>OnPrepare\<close> is \<open>func(connection Connection) context.Context\<close>: it receives the
  reference, may call the connection's methods, and returns a context. A value of a Go
  function type may be \<open>nil\<close>, which the \<open>options\<close> struct stores as \<open>None\<close>.
  Callbacks are taken to return; \<open>prepare\<close> does not recover from a panic of the
  callback, which would leave the hook as it is raised.
\<close>

type_synonym 'h OnPrepare = "Connection \<Rightarrow> 'h connections \<Rightarrow> Context \<times> 'h connections"

text \<open>The struct \<open>options\<close> (lines 73 to 77).\<close>

record 'h options =
  onPrepare :: "'h OnPrepare option"
  readTimeout :: duration
  idleTimeout :: duration

text \<open>
  The struct \<open>Option\<close> (lines 69 to 71) has one field, \<open>f func(*options)\<close>, and a
  value of a Go function type may be \<open>nil\<close>. \<open>Option g\<close> is the struct whose \<open>f\<close> is the
  closure \<open>g\<close>; the closure writes through the pointer it is given, so it is a function
  from the struct before to the struct after. \<open>OptionZero\<close> is the zero value
  \<open>Option{}\<close>, whose \<open>f\<close> is \<open>nil\<close>: the type is exported, so a caller can write it,
  though no factory of this file returns it. The selector \<open>f\<close> is only meaningful on
  \<open>Option g\<close>.
\<close>

datatype 'h Option = Option (f: "'h options \<Rightarrow> 'h options") | OptionZero

section \<open>The option factories (lines 48 to 66)\<close>

definition WithOnPrepare :: "'h OnPrepare option \<Rightarrow> 'h Option" where
  "WithOnPrepare onPrepare' = Option (\<lambda>op. op\<lparr>onPrepare := onPrepare'\<rparr>)"

definition WithReadTimeout :: "duration \<Rightarrow> 'h Option" where
  "WithReadTimeout timeout = Option (\<lambda>op. op\<lparr>readTimeout := timeout\<rparr>)"

definition WithIdleTimeout :: "duration \<Rightarrow> 'h Option" where
  "WithIdleTimeout timeout = Option (\<lambda>op. op\<lparr>idleTimeout := timeout\<rparr>)"

section \<open>The preparation wrapper (lines 79 to 89)\<close>

text \<open>
  \<open>prepare\<close> has a pointer receiver and the closure it returns reads \<open>opt.readTimeout\<close>,
  \<open>opt.idleTimeout\<close> and \<open>opt.onPrepare\<close> through that pointer each time it is called.
  The state the produced hook runs in therefore holds the \<open>options\<close> objects (by
  address) beside the connection objects. The caller's callback is only handed the
  connection: the \<open>options\<close> object is unexported and never passed to it.
\<close>

record 'h world =
  options_at :: "nat \<Rightarrow> 'h options"
  connections :: "'h connections"

definition prepare :: "nat \<Rightarrow> 'h \<Rightarrow> Connection \<Rightarrow> 'h world \<Rightarrow> Context \<times> 'h world" where
  "prepare opt onRequest connection w =
     (let cs1 = SetOnRequest connection onRequest (connections w);
          cs2 = SetReadTimeout connection (readTimeout (options_at w opt)) cs1;
          cs3 = SetIdleTimeout connection (idleTimeout (options_at w opt)) cs2
      in case onPrepare (options_at w opt) of
           Some cb \<Rightarrow> (case cb connection cs3 of (ctx, cs4) \<Rightarrow> (ctx, w\<lparr>connections := cs4\<rparr>))
         | None \<Rightarrow> (Background, w\<lparr>connections := cs3\<rparr>))"

section \<open>Configuration resolution\<close>

text \<open>The zero value of the struct \<open>options\<close>: a \<open>nil\<close> callback and both durations \<open>0\<close>.\<close>

definition zero_options :: "'h options" where
  "zero_options = \<lparr>onPrepare = None, readTimeout = 0, idleTimeout = 0\<rparr>"




section \<open>Calls of the factories\<close>

text \<open>
  An \<open>Option\<close> is a closure and does not say which factory made it. To speak of
  ``an Option produced by a factory'' and of ``the field it targets'', a factory call is
  described by the factory and its argument: \<open>build\<close> makes the call, \<open>target\<close> names
  the field of \<open>options\<close> that the factory's closure assigns (line 50, 57 or 64), and
  \<open>same_field\<close> compares two configurations on one field.
\<close>

datatype 'h factory_call =
  OnPrepareCall "'h OnPrepare option"
| ReadTimeoutCall duration
| IdleTimeoutCall duration

datatype field = FieldOnPrepare | FieldReadTimeout | FieldIdleTimeout

primrec build :: "'h factory_call \<Rightarrow> 'h Option" where
  "build (OnPrepareCall cb) = WithOnPrepare cb"
| "build (ReadTimeoutCall t) = WithReadTimeout t"
| "build (IdleTimeoutCall t) = WithIdleTimeout t"

primrec target :: "'h factory_call \<Rightarrow> field" where
  "target (OnPrepareCall cb) = FieldOnPrepare"
| "target (ReadTimeoutCall t) = FieldReadTimeout"
| "target (IdleTimeoutCall t) = FieldIdleTimeout"

primrec same_field :: "field \<Rightarrow> 'h options \<Rightarrow> 'h options \<Rightarrow> bool" where
  "same_field FieldOnPrepare a b = (onPrepare a = onPrepare b)"
| "same_field FieldReadTimeout a b = (readTimeout a = readTimeout b)"
| "same_field FieldIdleTimeout a b = (idleTimeout a = idleTimeout b)"

section \<open>The global tuning entry points (lines 27 to 45)\<close>

text \<open>
  \<open>SetNumLoops\<close>, \<open>SetLoadBalance\<close> and \<open>DisableGopool\<close> call the package functions
  \<open>setNumLoops\<close>, \<open>setLoadBalance\<close> and \<open>disableGopool\<close>, which are declared in
  another file and act on the poller manager's process-wide state. They are taken as
  parameters: an engine is the three operations over a state \<open>'s\<close>, each returning the
  Go \<open>error\<close> (\<open>None\<close> for \<open>nil\<close>) and the state it leaves. \<open>'lb\<close> is the type
  \<open>LoadBalance\<close>, declared elsewhere too. Go's \<open>int\<close> is taken at 64 bits; the
  number is only handed on, so its width plays no part.
\<close>

datatype error = Error string

type_synonym go_int = "64 word"

record ('s, 'lb) engine =
  setNumLoops :: "go_int \<Rightarrow> 's \<Rightarrow> error option \<times> 's"
  setLoadBalance :: "'lb \<Rightarrow> 's \<Rightarrow> error option \<times> 's"
  disableGopool :: "'s \<Rightarrow> error option \<times> 's"

definition SetNumLoops :: "('s, 'lb) engine \<Rightarrow> go_int \<Rightarrow> 's \<Rightarrow> error option \<times> 's" where
  "SetNumLoops E numLoops s = setNumLoops E numLoops s"

definition SetLoadBalance :: "('s, 'lb) engine \<Rightarrow> 'lb \<Rightarrow> 's \<Rightarrow> error option \<times> 's" where
  "SetLoadBalance E lb s = setLoadBalance E lb s"

definition DisableGopool :: "('s, 'lb) engine \<Rightarrow> 's \<Rightarrow> error option \<times> 's" where
  "DisableGopool E s = disableGopool E s"

section \<open>Auxiliary facts\<close>

lemmas factory_defs = WithOnPrepare_def WithReadTimeout_def WithIdleTimeout_def

text \<open>The three setter calls of the hook, in the order of lines 81 to 83, as one update.\<close>

lemma installed_eq:
  "SetIdleTimeout c i (SetReadTimeout c r (SetOnRequest c h cs)) =
   cs(c := (cs c)\<lparr>conn_onRequest := h, conn_readTimeout := r, conn_idleTimeout := i\<rparr>)"
  by (simp add: SetOnRequest_def SetReadTimeout_def SetIdleTimeout_def)





text \<open>
  Agreement on a field is an equivalence; a factory's closure fixes its own field whatever
  the configuration it starts from, and changes no other field. A run of factory-made
  Options keeps every field that none of them targets, and a field targeted by exactly
  one of them gets that Option's value.
\<close>

lemma same_field_refl: "same_field fl a a"
  by (cases fl) simp_all

lemma same_field_trans: "same_field fl a b \<Longrightarrow> same_field fl b c \<Longrightarrow> same_field fl a c"
  by (cases fl) simp_all

lemma build_other_field: "fl \<noteq> target c \<Longrightarrow> same_field fl (f (build c) cfg) cfg"
  by (cases c; cases fl) (simp_all add: WithOnPrepare_def WithReadTimeout_def WithIdleTimeout_def)

lemma build_own_field: "same_field (target c) (f (build c) cfg) (f (build c) cfg')"
  by (cases c) (simp_all add: WithOnPrepare_def WithReadTimeout_def WithIdleTimeout_def)

lemma options_eqI: "(\<And>fl. same_field fl a b) \<Longrightarrow> a = (b :: 'h options)"
proof -
  assume h: "\<And>fl. same_field fl a b"
  from h[of FieldOnPrepare] h[of FieldReadTimeout] h[of FieldIdleTimeout]
  show ?thesis by simp
qed

lemma run_untargeted:
  "fl \<notin> target ` set cs \<Longrightarrow> same_field fl (foldl (\<lambda>cfg d. f d cfg) cfg (map build cs)) cfg"
proof (induction cs arbitrary: cfg)
  case Nil
  show ?case by (simp add: same_field_refl)
next
  case (Cons c cs)
  from Cons.prems have a: "fl \<noteq> target c" and b: "fl \<notin> target ` set cs" by auto
  have "same_field fl (foldl (\<lambda>cfg d. f d cfg) (f (build c) cfg) (map build cs)) (f (build c) cfg)"
    using Cons.IH[OF b] .
  then show ?case
    using build_other_field[OF a] by (auto intro: same_field_trans)
qed

lemma run_targeted:
  "distinct (map target cs) \<Longrightarrow> c \<in> set cs \<Longrightarrow>
   same_field (target c) (foldl (\<lambda>cfg d. f d cfg) cfg (map build cs)) (f (build c) cfg)"
proof (induction cs arbitrary: cfg)
  case Nil
  then show ?case by simp
next
  case (Cons x cs)
  show ?case
  proof (cases "c = x")
    case True
    from Cons.prems(1) have "target x \<notin> target ` set cs" by simp
    from run_untargeted[OF this] True show ?thesis by simp
  next
    case False
    with Cons.prems have d: "distinct (map target cs)" and m: "c \<in> set cs" by auto
    have "same_field (target c) (foldl (\<lambda>cfg d. f d cfg) (f (build x) cfg) (map build cs))
            (f (build c) (f (build x) cfg))"
      using Cons.IH[OF d m] .
    then show ?thesis
      using build_own_field[of c "f (build x) cfg" cfg] by (auto intro: same_field_trans)
  qed
qed

section \<open>Properties of the preparation wrapper\<close>

text \<open>
  C1: for a configuration with read timeout \<open>r\<close>, idle timeout \<open>i\<close> and no preparation
  callback, and every request handler \<open>h\<close>, the hook produced by \<open>prepare\<close> for \<open>h\<close>,
  invoked on a connection \<open>c\<close>, sets that connection's request handler to \<open>h\<close>, its
  read timeout to \<open>r\<close> and its idle timeout to \<open>i\<close>, and returns the background
  context. (The first conjunct is the whole outcome: nothing else changes.)
\<close>

theorem prepare_without_callback:
  assumes "options_at w opt = \<lparr>onPrepare = None, readTimeout = r, idleTimeout = i\<rparr>"
  shows "prepare opt h c w =
           (Background,
            w\<lparr>connections := (connections w)(c := (connections w c)
                 \<lparr>conn_onRequest := h, conn_readTimeout := r, conn_idleTimeout := i\<rparr>)\<rparr>)
    \<and> fst (prepare opt h c w) = Background
    \<and> conn_onRequest (connections (snd (prepare opt h c w)) c) = h
    \<and> conn_readTimeout (connections (snd (prepare opt h c w)) c) = r
    \<and> conn_idleTimeout (connections (snd (prepare opt h c w)) c) = i"
proof -
  have "prepare opt h c w =
           (Background,
            w\<lparr>connections := (connections w)(c := (connections w c)
                 \<lparr>conn_onRequest := h, conn_readTimeout := r, conn_idleTimeout := i\<rparr>)\<rparr>)"
    using assms by (simp add: prepare_def installed_eq)
  then show ?thesis by simp
qed

text \<open>
  The example of the specification: 5 seconds, 30 seconds, no callback.
\<close>

theorem prepare_without_callback_witness:
  "(let w = \<lparr>options_at = (\<lambda>p. \<lparr>onPrepare = None, readTimeout = 5 * Second, idleTimeout = 30 * Second\<rparr>),
             connections = (\<lambda>k. \<lparr>conn_onRequest = ''unset'', conn_readTimeout = 0, conn_idleTimeout = 0\<rparr>)\<rparr>
    in options_at w 0 = \<lparr>onPrepare = None, readTimeout = 5 * Second, idleTimeout = 30 * Second\<rparr>
     \<and> fst (prepare 0 ''handler'' 7 w) = Background
     \<and> connections (snd (prepare 0 ''handler'' 7 w)) 7 =
         \<lparr>conn_onRequest = ''handler'', conn_readTimeout = 5 * Second, conn_idleTimeout = 30 * Second\<rparr>)"
  using prepare_without_callback
    [of "\<lparr>options_at = (\<lambda>p. \<lparr>onPrepare = None, readTimeout = 5 * Second, idleTimeout = 30 * Second\<rparr>),
             connections = (\<lambda>k. \<lparr>conn_onRequest = ''unset'', conn_readTimeout = 0, conn_idleTimeout = 0\<rparr>)\<rparr>"
        0 "5 * Second" "30 * Second" "''handler''" 7]
  by (simp add: Let_def)

text \<open>
  C2: when a preparation callback \<open>cb\<close> is configured, the hook installs the request
  handler and the configured read and idle timeouts first; \<open>cb\<close> is then invoked on the
  connection in the store \<open>installed\<close> where all three are in place, and the hook returns
  exactly what \<open>cb\<close> returns and leaves the connections as \<open>cb\<close> leaves them. So the read
  timeout of the connection after the hook is the one \<open>cb\<close> left.
\<close>

theorem prepare_with_callback:
  assumes "onPrepare (options_at w opt) = Some cb"
    and "installed = (connections w)(c := (connections w c)
           \<lparr>conn_onRequest := h,
            conn_readTimeout := readTimeout (options_at w opt),
            conn_idleTimeout := idleTimeout (options_at w opt)\<rparr>)"
  shows "prepare opt h c w = (fst (cb c installed), w\<lparr>connections := snd (cb c installed)\<rparr>)
    \<and> conn_onRequest (installed c) = h
    \<and> conn_readTimeout (installed c) = readTimeout (options_at w opt)
    \<and> conn_idleTimeout (installed c) = idleTimeout (options_at w opt)
    \<and> conn_readTimeout (connections (snd (prepare opt h c w)) c) =
        conn_readTimeout (snd (cb c installed) c)"
proof -
  have "prepare opt h c w = (fst (cb c installed), w\<lparr>connections := snd (cb c installed)\<rparr>)"
    using assms by (simp add: prepare_def installed_eq split: prod.split)
  then show ?thesis using assms(2) by simp
qed

text \<open>
  The example of the specification: the callback overrides the read timeout to 1 second
  and returns its own context; 1 second is the connection's final read timeout, the idle
  timeout and the handler are the installed ones.
\<close>

theorem prepare_with_callback_witness:
  "(let cb = (\<lambda>c cs. (WithValue Background ''id'' ''42'', SetReadTimeout c (1 * Second) cs));
        w = \<lparr>options_at = (\<lambda>p. \<lparr>onPrepare = Some cb, readTimeout = 5 * Second, idleTimeout = 30 * Second\<rparr>),
             connections = (\<lambda>k. \<lparr>conn_onRequest = ''unset'', conn_readTimeout = 0, conn_idleTimeout = 0\<rparr>)\<rparr>
    in onPrepare (options_at w 0) = Some cb
     \<and> fst (prepare 0 ''handler'' 7 w) = WithValue Background ''id'' ''42''
     \<and> connections (snd (prepare 0 ''handler'' 7 w)) 7 =
         \<lparr>conn_onRequest = ''handler'', conn_readTimeout = 1 * Second, conn_idleTimeout = 30 * Second\<rparr>)"
  using prepare_with_callback
    [of "\<lparr>options_at = (\<lambda>p. \<lparr>onPrepare = Some (\<lambda>c cs. (WithValue Background ''id'' ''42'', SetReadTimeout c (1 * Second) cs)),
                                 readTimeout = 5 * Second, idleTimeout = 30 * Second\<rparr>),
             connections = (\<lambda>k. \<lparr>conn_onRequest = ''unset'', conn_readTimeout = 0, conn_idleTimeout = 0\<rparr>)\<rparr>"
        0 "\<lambda>c cs. (WithValue Background ''id'' ''42'', SetReadTimeout c (1 * Second) cs)"
        _ 7 "''handler''", OF _ refl]
  by (simp add: Let_def SetReadTimeout_def)



text \<open>
  C8: when the callback of the configuration is the one that \<open>WithOnPrepare\<close> applied to
  \<open>nil\<close> leaves (whatever Options set the timeouts before or after it), the hook behaves
  as with no callback configured: it installs the handler and both timeouts and returns
  the background context; no callback is invoked.
\<close>

theorem nil_callback_is_no_callback:
  assumes "onPrepare (options_at w opt) = onPrepare (f (WithOnPrepare None) cfg)"
  shows "prepare opt h c w =
           (Background,
            w\<lparr>connections := (connections w)(c := (connections w c)
                 \<lparr>conn_onRequest := h,
                  conn_readTimeout := readTimeout (options_at w opt),
                  conn_idleTimeout := idleTimeout (options_at w opt)\<rparr>)\<rparr>)"
proof -
  have "onPrepare (options_at w opt) = None"
    using assms by (simp add: WithOnPrepare_def)
  then show ?thesis by (simp add: prepare_def installed_eq)
qed

text \<open>
  A configuration in which a callback was set first, then \<open>WithOnPrepare\<close> was applied
  to \<open>nil\<close>, then a read timeout was set.
\<close>

theorem nil_callback_is_no_callback_witness:
  "(let cfg = f (WithReadTimeout (5 * Second))
                (f (WithOnPrepare None)
                   (f (WithOnPrepare (Some (\<lambda>c cs. (WithValue Background ''id'' ''42'', cs)))) zero_options));
        w = \<lparr>options_at = (\<lambda>p. cfg),
             connections = (\<lambda>k. \<lparr>conn_onRequest = ''unset'', conn_readTimeout = 0, conn_idleTimeout = 0\<rparr>)\<rparr>
    in onPrepare (options_at w 0) = onPrepare (f (WithOnPrepare None) zero_options)
     \<and> fst (prepare 0 ''handler'' 7 w) = Background
     \<and> connections (snd (prepare 0 ''handler'' 7 w)) 7 =
         \<lparr>conn_onRequest = ''handler'', conn_readTimeout = 5 * Second, conn_idleTimeout = 0\<rparr>)"
  using nil_callback_is_no_callback
    [of "\<lparr>options_at = (\<lambda>p. f (WithReadTimeout (5 * Second))
                (f (WithOnPrepare None)
                   (f (WithOnPrepare (Some (\<lambda>c cs. (WithValue Background ''id'' ''42'', cs)))) zero_options))),
             connections = (\<lambda>k. \<lparr>conn_onRequest = ''unset'', conn_readTimeout = 0, conn_idleTimeout = 0\<rparr>)\<rparr>"
        0 zero_options "''handler''" 7]
  by (simp add: Let_def factory_defs zero_options_def)

section \<open>Properties of option application\<close>

text \<open>
  C3: for two factory-made Options \<open>A\<close> and \<open>B\<close> that target the same field, and every
  starting configuration, applying \<open>A\<close> then \<open>B\<close> gives the configuration that \<open>B\<close>
  alone gives, and the value of the field is the one \<open>B\<close> sets from any configuration
  at all: the last writer wins, whatever \<open>A\<close> did.
\<close>

theorem last_writer_wins:
  assumes "target a = target b"
  shows "f (build b) (f (build a) cfg) = f (build b) cfg
    \<and> same_field (target b) (f (build b) (f (build a) cfg)) (f (build b) cfg')"
  using assms by (cases a; cases b) (simp_all add: factory_defs)

text \<open>A read timeout of 5 seconds, then one of 10 seconds: the read timeout is 10 seconds.\<close>

theorem last_writer_wins_witness:
  "target (ReadTimeoutCall (5 * Second) :: string factory_call) = target (ReadTimeoutCall (10 * Second) :: string factory_call)
   \<and> readTimeout (f (WithReadTimeout (10 * Second)) (f (WithReadTimeout (5 * Second)) (zero_options :: string options)))
       = 10 * Second"
  using last_writer_wins
    [of "ReadTimeoutCall (5 * Second) :: string factory_call" "ReadTimeoutCall (10 * Second)"
        zero_options zero_options]
  by (simp add: factory_defs)

text \<open>
  C4: for factory-made Options that target pairwise different fields, the configuration
  reached by applying them in sequence is the same for every order of the sequence; each
  targeted field has the value its Option gives when applied on its own, and every other
  field keeps the value of the starting configuration.
\<close>

theorem disjoint_fields_order_independent:
  assumes "distinct (map target cs)" and "mset cs' = mset cs"
  shows "foldl (\<lambda>cfg d. f d cfg) cfg (map build cs') = foldl (\<lambda>cfg d. f d cfg) cfg (map build cs)
    \<and> (\<forall>c \<in> set cs. same_field (target c) (foldl (\<lambda>cfg d. f d cfg) cfg (map build cs)) (f (build c) cfg))
    \<and> (\<forall>fl. fl \<notin> target ` set cs \<longrightarrow> same_field fl (foldl (\<lambda>cfg d. f d cfg) cfg (map build cs)) cfg)"
proof -
  let ?run = "\<lambda>xs. foldl (\<lambda>cfg d. f d cfg) cfg (map build xs)"
  have set_eq: "set cs' = set cs" using assms(2) by (rule mset_eq_setD)
  have "mset (map target cs') = mset (map target cs)" using assms(2) by simp
  then have dist': "distinct (map target cs')" using assms(1) by (metis mset_eq_imp_distinct_iff)
  have "same_field fl (?run cs') (?run cs)" for fl
  proof (cases "fl \<in> target ` set cs")
    case True
    then obtain c where c: "c \<in> set cs" and fl: "fl = target c" by auto
    have 1: "same_field fl (?run cs) (f (build c) cfg)" using run_targeted[OF assms(1) c] fl by simp
    have 2: "same_field fl (?run cs') (f (build c) cfg)" using run_targeted[OF dist'] c set_eq fl by simp
    from 1 2 show ?thesis by (cases fl) simp_all
  next
    case False
    have 1: "same_field fl (?run cs) cfg" using run_untargeted[OF False] .
    have 2: "same_field fl (?run cs') cfg" using run_untargeted[of fl cs'] False set_eq by simp
    from 1 2 show ?thesis by (cases fl) simp_all
  qed
  then have "?run cs' = ?run cs" by (rule options_eqI)
  moreover have "\<forall>c \<in> set cs. same_field (target c) (?run cs) (f (build c) cfg)"
    using run_targeted[OF assms(1)] by blast
  moreover have "\<forall>fl. fl \<notin> target ` set cs \<longrightarrow> same_field fl (?run cs) cfg"
    using run_untargeted by blast
  ultimately show ?thesis by simp
qed

text \<open>Three Options on the three fields, in one order and in the reverse order.\<close>

theorem disjoint_fields_order_independent_witness:
  "(let cs = [ReadTimeoutCall (5 * Second), IdleTimeoutCall (30 * Second), OnPrepareCall None];
        cs' = [OnPrepareCall None, IdleTimeoutCall (30 * Second), ReadTimeoutCall (5 * Second)]
    in distinct (map target cs) \<and> mset cs' = mset cs
     \<and> foldl (\<lambda>cfg d. f d cfg) (zero_options :: string options) (map build cs')
         = foldl (\<lambda>cfg d. f d cfg) zero_options (map build cs)
     \<and> foldl (\<lambda>cfg d. f d cfg) (zero_options :: string options) (map build cs)
         = \<lparr>onPrepare = None, readTimeout = 5 * Second, idleTimeout = 30 * Second\<rparr>)"
  using disjoint_fields_order_independent
    [of "[ReadTimeoutCall (5 * Second), IdleTimeoutCall (30 * Second), OnPrepareCall None]"
        "[OnPrepareCall None, IdleTimeoutCall (30 * Second), ReadTimeoutCall (5 * Second)]"
        "zero_options :: string options"]
  by (simp add: Let_def factory_defs zero_options_def)

text \<open>
  C9: an Option made by \<open>WithOnPrepare\<close>, \<open>WithReadTimeout\<close> or \<open>WithIdleTimeout\<close>
  writes its own field of the configuration and leaves the other two fields as they were.
\<close>

theorem option_frame:
  "onPrepare (f (WithOnPrepare cb) cfg) = cb
   \<and> readTimeout (f (WithOnPrepare cb) cfg) = readTimeout cfg
   \<and> idleTimeout (f (WithOnPrepare cb) cfg) = idleTimeout cfg
   \<and> readTimeout (f (WithReadTimeout t) cfg) = t
   \<and> onPrepare (f (WithReadTimeout t) cfg) = onPrepare cfg
   \<and> idleTimeout (f (WithReadTimeout t) cfg) = idleTimeout cfg
   \<and> idleTimeout (f (WithIdleTimeout t) cfg) = t
   \<and> onPrepare (f (WithIdleTimeout t) cfg) = onPrepare cfg
   \<and> readTimeout (f (WithIdleTimeout t) cfg) = readTimeout cfg"
  by (simp add: factory_defs)

text \<open>
  C10: applying an Option made by \<open>WithOnPrepare\<close>, \<open>WithReadTimeout\<close> or
  \<open>WithIdleTimeout\<close> twice in a row gives the configuration that applying it once gives.
\<close>

theorem option_idempotent:
  "f (WithOnPrepare cb) (f (WithOnPrepare cb) cfg) = f (WithOnPrepare cb) cfg
   \<and> f (WithReadTimeout t) (f (WithReadTimeout t) cfg) = f (WithReadTimeout t) cfg
   \<and> f (WithIdleTimeout t) (f (WithIdleTimeout t) cfg) = f (WithIdleTimeout t) cfg"
  by (simp add: factory_defs)

section \<open>Properties of configuration resolution\<close>




section \<open>Properties of the global tuning entry points\<close>

text \<open>
  C6: whatever the engine, its state and the argument, \<open>SetNumLoops\<close>, \<open>SetLoadBalance\<close>
  and \<open>DisableGopool\<close> give exactly the result of the engine operation called with the
  same argument, and leave the engine's state as that operation leaves it: nothing is
  checked, changed, wrapped or remembered on the way, and a failure of the engine is
  returned as it is.
\<close>

theorem tuning_passthrough:
  "SetNumLoops E numLoops s = setNumLoops E numLoops s
   \<and> SetLoadBalance E lb s = setLoadBalance E lb s
   \<and> DisableGopool E s = disableGopool E s"
  by (simp add: SetNumLoops_def SetLoadBalance_def DisableGopool_def)

text \<open>An engine that rejects a poller count below 1, asked for \<open>-1\<close> pollers.\<close>

theorem tuning_passthrough_witness:
  "SetNumLoops
     (\<lparr>setNumLoops = (\<lambda>n s. if sint n < 1 then (Some (Error ''set invalid numLoops''), s) else (None, n)),
      setLoadBalance = (\<lambda>lb s. (None, s)),
      disableGopool = (\<lambda>s. (None, s))\<rparr> :: (go_int, bool) engine) (- 1) 1
   = (Some (Error ''set invalid numLoops''), 1)"
  using tuning_passthrough
    [of "\<lparr>setNumLoops = (\<lambda>n s. if sint n < 1 then (Some (Error ''set invalid numLoops''), s) else (None, n)),
      setLoadBalance = (\<lambda>lb s. (None, s)),
      disableGopool = (\<lambda>s. (None, s))\<rparr> :: (go_int, bool) engine" "- 1" 1 True,
     THEN conjunct1]
  by simp

end
